theory Spec2Isabelle
  imports Complex_Main "HOL-Library.Log_Nat"
begin

section \<open>JavaScript values, strings and exceptions\<close>

text \<open>
  The two source files are \<^verbatim>\<open>agent.js\<close> (class \<^verbatim>\<open>TaskAgent\<close>) and \<^verbatim>\<open>server.js\<close> (the
  retrieval pipeline). An awaited call returns, \<open>Inr v\<close>, or throws, \<open>Inl e\<close>. JavaScript can
  throw any value, and the \<^verbatim>\<open>catch\<close> blocks read \<^verbatim>\<open>error.message\<close> of what they caught. So a
  thrown value is one of: an \<open>Error\<close> object with its message (every \<^verbatim>\<open>throw\<close> of the
  repository throws \<^verbatim>\<open>new Error(msg)\<close>, and a \<^verbatim>\<open>TypeError\<close> is one), \<^verbatim>\<open>null\<close>, \<^verbatim>\<open>undefined\<close>, or any
  other value, whose \<^verbatim>\<open>message\<close> property is \<^verbatim>\<open>undefined\<close> (a thrown string or number, an object
  without message).
  A JavaScript string is a list of code units; the model keeps the code units below 256.
\<close>

datatype js_error = Error string | ThrownNull | ThrownUndefined | ThrownWithoutMessage

datatype js_value = JUndefined | JNull | JBoolean bool | JNumber int | JString string | JObject

text \<open>\<^verbatim>\<open>!v\<close> is \<open>\<not> truthy v\<close>; \<^verbatim>\<open>typeof v === 'string'\<close> is \<open>is_string v\<close>.\<close>

fun truthy :: "js_value \<Rightarrow> bool" where
  "truthy JUndefined = False"
| "truthy JNull = False"
| "truthy (JBoolean b) = b"
| "truthy (JNumber n) = (n \<noteq> 0)"
| "truthy (JString s) = (s \<noteq> [])"
| "truthy JObject = True"

fun is_string :: "js_value \<Rightarrow> bool" where
  "is_string (JString s) = True"
| "is_string v = False"

text \<open>
  \<^verbatim>\<open>String.prototype.trim\<close> removes white space and line terminators from both ends. Below
  256 these are TAB, LF, VT, FF, CR, SPACE and NBSP.
\<close>

definition is_js_space :: "char \<Rightarrow> bool" where
  "is_js_space c =
     (c = CHR 0x09 \<or> c = CHR 0x0A \<or> c = CHR 0x0B \<or> c = CHR 0x0C \<or> c = CHR 0x0D \<or>
      c = CHR 0x20 \<or> c = CHR 0xA0)"

definition trim :: "string \<Rightarrow> string" where
  "trim s = rev (dropWhile is_js_space (rev (dropWhile is_js_space s)))"

text \<open>\<^verbatim>\<open>s.substring(0, n)\<close> is \<open>take n s\<close>; \<^verbatim>\<open>xs.join(sep)\<close> is \<open>join sep xs\<close>.\<close>

fun join :: "string \<Rightarrow> string list \<Rightarrow> string" where
  "join sep [] = []"
| "join sep [x] = x"
| "join sep (x # y # ys) = x @ sep @ join sep (y # ys)"

text \<open>
  The decimal numeral of an integer. A template literal prints it for an array index, for a
  time value (\<^verbatim>\<open>Date.now()\<close>, at most \<open>8.64 * 10 ^ 15\<close> in magnitude) and for every other
  integer number up to \<open>2 ^ 53\<close> in magnitude. Beyond that a number is a double that need
  not be an integer of the same digits, and from \<open>10 ^ 21\<close> on it is printed with an exponent:
  what is printed there is the parameter \<open>beyond\<close> of \<open>number_string\<close>.
\<close>

fun digits :: "nat \<Rightarrow> string" where
  "digits n =
     (if n < 10 then [''0123456789'' ! n]
      else digits (n div 10) @ [''0123456789'' ! (n mod 10)])"

declare digits.simps [simp del]

definition decimal :: "int \<Rightarrow> string" where
  "decimal i = (if i < 0 then ''-'' @ digits (nat (- i)) else digits (nat i))"

definition number_string :: "(int \<Rightarrow> string) \<Rightarrow> int \<Rightarrow> string" where
  "number_string beyond i = (if \<bar>i\<bar> \<le> 9007199254740992 then decimal i else beyond i)"

text \<open>
  A template literal prints a missing (\<^verbatim>\<open>undefined\<close>) string or number as the word
  \<^verbatim>\<open>undefined\<close>.
\<close>

definition template_string :: "string option \<Rightarrow> string" where
  "template_string v = (case v of None \<Rightarrow> ''undefined'' | Some s \<Rightarrow> s)"

definition template_number :: "(int \<Rightarrow> string) \<Rightarrow> int option \<Rightarrow> string" where
  "template_number beyond v = (case v of None \<Rightarrow> ''undefined'' | Some n \<Rightarrow> number_string beyond n)"

text \<open>Sequencing of awaited calls: the first throw ends the block.\<close>

definition bind_js :: "js_error + 'a \<Rightarrow> ('a \<Rightarrow> js_error + 'b) \<Rightarrow> js_error + 'b" where
  "bind_js r f = (case r of Inl e \<Rightarrow> Inl e | Inr v \<Rightarrow> f v)"

text \<open>Reading a property of \<^verbatim>\<open>undefined\<close> or of \<^verbatim>\<open>null\<close> throws a \<^verbatim>\<open>TypeError\<close>.\<close>

definition cannot_read :: "string \<Rightarrow> js_error" where
  "cannot_read p = Error (''Cannot read properties of undefined (reading '' @ [CHR 0x27] @ p @ [CHR 0x27] @ '')'')"

definition cannot_read_null :: "string \<Rightarrow> js_error" where
  "cannot_read_null p = Error (''Cannot read properties of null (reading '' @ [CHR 0x27] @ p @ [CHR 0x27] @ '')'')"

text \<open>
  \<^verbatim>\<open>error.message\<close> in a \<^verbatim>\<open>catch\<close> block: the message of an \<open>Error\<close>, \<^verbatim>\<open>undefined\<close> (\<open>None\<close>) for a
  value without message, and a \<^verbatim>\<open>TypeError\<close> thrown from inside the \<^verbatim>\<open>catch\<close> block when the
  caught value is \<^verbatim>\<open>null\<close> or \<^verbatim>\<open>undefined\<close>.
\<close>

definition read_message :: "js_error \<Rightarrow> js_error + string option" where
  "read_message e =
     (case e of
        Error m \<Rightarrow> Inr (Some m)
      | ThrownNull \<Rightarrow> Inl (cannot_read_null ''message'')
      | ThrownUndefined \<Rightarrow> Inl (cannot_read ''message'')
      | ThrownWithoutMessage \<Rightarrow> Inr None)"

section \<open>IEEE 754 double arithmetic\<close>

text \<open>
  A JavaScript number is a double. A finite double is modelled by the rational it denotes,
  and an arithmetic operation returns the exact result rounded to the nearest double, ties
  to even (53 significant bits, subnormals below \<open>2 ^ -1022\<close>). Overflow to \<^verbatim>\<open>Infinity\<close> is not
  modelled: the numbers of this program stay far below \<open>2 ^ 1024\<close>.
\<close>

definition pow2 :: "int \<Rightarrow> rat" where
  "pow2 k = (if 0 \<le> k then 2 ^ nat k else 1 / 2 ^ nat (- k))"

text \<open>For \<open>x > 0\<close>, \<open>floor_log2 x\<close> is the exponent \<open>e\<close> with \<open>2 ^ e \<le> x < 2 ^ (e + 1)\<close>.\<close>

definition floor_log2 :: "rat \<Rightarrow> int" where
  "floor_log2 x =
     (let (a, b) = quotient_of x; d = bitlen a - bitlen b
      in if pow2 d \<le> x then d else d - 1)"

definition round_half_even :: "rat \<Rightarrow> int" where
  "round_half_even m =
     (let f = \<lfloor>m\<rfloor>; d = m - of_int f
      in if d < 1 / 2 then f else if 1 / 2 < d then f + 1 else if even f then f else f + 1)"

definition round_double :: "rat \<Rightarrow> rat" where
  "round_double x =
     (if x = 0 then 0
      else let e = max (floor_log2 \<bar>x\<bar>) (- 1022); u = pow2 (e - 52)
           in of_int (round_half_even (x / u)) * u)"

definition double_times :: "rat \<Rightarrow> rat \<Rightarrow> rat" where
  "double_times x y = round_double (x * y)"

definition double_minus :: "rat \<Rightarrow> rat \<Rightarrow> rat" where
  "double_minus x y = round_double (x - y)"

text \<open>The literal \<^verbatim>\<open>0.1\<close> denotes the double nearest to one tenth.\<close>

definition literal_0_1 :: rat where
  "literal_0_1 = round_double (1 / 10)"

section \<open>The intent classifier (agent.js, analyzeIntent)\<close>

definition intent_prompt :: "string \<Rightarrow> string" where
  \<open>intent_prompt q =
     ''Classify the following user query into one of these categories:\<newline>'' @
     ''            - "answer_question": The user is asking a question that requires a direct answer from the knowledge base.\<newline>'' @
     ''            - "search_knowledge_base": The user wants to search the knowledge base for relevant documents or chunks.\<newline>'' @
     ''            - "get_query_count": The user wants to know the current total number of queries.\<newline>'' @
     ''            - "unknown": The query does not fit into any of the above categories.\<newline>'' @
     ''\<newline>'' @
     ''            Respond with only the category name.\<newline>'' @
     ''\<newline>'' @
     ''            Query: "'' @ q @ ''"\<newline>'' @
     ''            Category:''\<close>

definition knownIntents :: "string list" where
  "knownIntents = [''answer_question'', ''search_knowledge_base'', ''get_query_count'']"

record intent_result =
  intent :: string
  error :: "string option"

text \<open>
  The language model is the collaborator \<^verbatim>\<open>this.genAI.models.generateContent\<close>: given the
  prompt it throws, or returns a result whose \<^verbatim>\<open>text\<close> is a string or \<^verbatim>\<open>undefined\<close>.
  \<open>analyzeIntent_try\<close> is the body of the \<^verbatim>\<open>try\<close> block, \<open>analyzeIntent\<close> adds the \<^verbatim>\<open>catch\<close>, which
  returns \<^verbatim>\<open>{intent: "unknown", error: error.message}\<close>. The \<^verbatim>\<open>error\<close> of the result is \<open>None\<close> when
  it is absent or \<^verbatim>\<open>undefined\<close>.
\<close>

definition analyzeIntent_try :: "(string \<Rightarrow> js_error + string option) \<Rightarrow> string \<Rightarrow> js_error + intent_result" where
  "analyzeIntent_try generateContent q =
     bind_js (generateContent (intent_prompt q)) (\<lambda>result_text.
       case result_text of
         None \<Rightarrow> Inl (cannot_read ''trim'')
       | Some t \<Rightarrow>
           let responseText = trim t;
               classifiedIntent = (if responseText \<in> set knownIntents then responseText else ''unknown'')
           in Inr \<lparr>intent = classifiedIntent, error = None\<rparr>)"

definition analyzeIntent :: "(string \<Rightarrow> js_error + string option) \<Rightarrow> string \<Rightarrow> js_error + intent_result" where
  "analyzeIntent generateContent q =
     (case analyzeIntent_try generateContent q of
        Inr r \<Rightarrow> Inr r
      | Inl e \<Rightarrow> bind_js (read_message e) (\<lambda>m. Inr \<lparr>intent = ''unknown'', error = m\<rparr>))"

section \<open>Retrieval (server.js, queryDocument and searchKnowledgeBase)\<close>

text \<open>
  A match of the vector store carries a metadata object or none; \<^verbatim>\<open>match.metadata?.text\<close>
  is \<^verbatim>\<open>undefined\<close> when the metadata is missing.
\<close>

record match_metadata =
  metadata_text :: js_value

record scored_match =
  metadata :: "match_metadata option"

definition optional_text :: "scored_match \<Rightarrow> js_value" where
  "optional_text m = (case metadata m of None \<Rightarrow> JUndefined | Some md \<Rightarrow> metadata_text md)"

fun string_of :: "js_value \<Rightarrow> string" where
  "string_of (JString s) = s"
| "string_of v = ''undefined''"

text \<open>
  The calls that reach the external services, in the order they are made. The embedding
  vector is whatever the embedding service returns (type \<open>'v\<close>).
\<close>

datatype 'v service_call = EmbedQuery string | IndexQuery 'v

text \<open>
  \<open>queryDocument\<close>: the guard \<^verbatim>\<open>!question || typeof question !== 'string'\<close> throws for the
  empty string and for every value that is not a string; then the question is embedded and
  the index queried (\<^verbatim>\<open>topK: 3\<close>), and the texts of the matches whose metadata text is a
  non-empty string are returned.
\<close>

definition queryDocument ::
  "(string \<Rightarrow> js_error + 'v) \<Rightarrow> ('v \<Rightarrow> js_error + scored_match list) \<Rightarrow> js_value \<Rightarrow>
     (js_error + string list) \<times> 'v service_call list" where
  "queryDocument embedQuery indexQuery question =
     (if \<not> truthy question \<or> \<not> is_string question
      then (Inl (Error ''Invalid question provided''), [])
      else
        case embedQuery (string_of question) of
          Inl e \<Rightarrow> (Inl e, [EmbedQuery (string_of question)])
        | Inr queryVector \<Rightarrow>
            (case indexQuery queryVector of
               Inl e \<Rightarrow> (Inl e, [EmbedQuery (string_of question), IndexQuery queryVector])
             | Inr matches \<Rightarrow>
                 (Inr (map (\<lambda>m. string_of (optional_text m))
                        (filter (\<lambda>m. truthy (optional_text m) \<and> is_string (optional_text m)) matches)),
                  [EmbedQuery (string_of question), IndexQuery queryVector])))"

record search_result =
  chunkId :: string
  content :: js_value
  relevanceScore :: rat

record search_response =
  success :: bool
  query :: js_value
  results :: "search_result list option"
  resultCount :: int
  message :: string
  errorDetails :: "string option"

text \<open>
  The objects that \<open>searchKnowledgeBase\<close> builds have every field but \<^verbatim>\<open>errorDetails\<close>, and
  their \<^verbatim>\<open>content\<close> is a string. The consumers in \<^verbatim>\<open>agent.js\<close> receive such objects from an
  injected collaborator and test for a missing \<^verbatim>\<open>results\<close> array and a falsy \<^verbatim>\<open>content\<close>, so
  \<^verbatim>\<open>results\<close> may be absent (\<open>None\<close>) and \<^verbatim>\<open>content\<close> is any value in the type.
\<close>

text \<open>
  The score \<^verbatim>\<open>1 - (index * 0.1)\<close>: an array index is an integer below \<open>2 ^ 32\<close>, which is a
  double, and so is 1.
\<close>

definition relevance :: "nat \<Rightarrow> rat" where
  "relevance index = double_minus 1 (double_times (of_nat index) literal_0_1)"

definition formatResult :: "nat \<times> string \<Rightarrow> search_result" where
  "formatResult p =
     (case p of (index, chunk) \<Rightarrow>
        \<lparr>chunkId = ''chunk_'' @ digits index, content = JString chunk, relevanceScore = relevance index\<rparr>)"

definition invalid_query :: "js_value \<Rightarrow> bool" where
  "invalid_query q = (\<not> truthy q \<or> \<not> is_string q \<or> trim (string_of q) = [])"

definition searchKnowledgeBase_try ::
  "(string \<Rightarrow> js_error + 'v) \<Rightarrow> ('v \<Rightarrow> js_error + scored_match list) \<Rightarrow> js_value \<Rightarrow>
     (js_error + search_response) \<times> 'v service_call list" where
  "searchKnowledgeBase_try embedQuery indexQuery q =
     (if invalid_query q then (Inl (Error ''Query cannot be empty or invalid.''), [])
      else
        case queryDocument embedQuery indexQuery q of
          (Inl e, calls) \<Rightarrow> (Inl e, calls)
        | (Inr rawSearchResults, calls) \<Rightarrow>
            let formattedResults = map formatResult (enumerate 0 rawSearchResults)
            in (Inr \<lparr>success = True, query = q, results = Some formattedResults,
                     resultCount = int (length formattedResults),
                     message = (if 0 < length formattedResults
                                then ''Search completed successfully.''
                                else ''No relevant results found.''),
                     errorDetails = None\<rparr>, calls))"

text \<open>
  The \<^verbatim>\<open>catch\<close> block reads \<^verbatim>\<open>error.message\<close> three times, first for the console, and returns
  the failure object.
\<close>

definition searchKnowledgeBase ::
  "(string \<Rightarrow> js_error + 'v) \<Rightarrow> ('v \<Rightarrow> js_error + scored_match list) \<Rightarrow> js_value \<Rightarrow>
     (js_error + search_response) \<times> 'v service_call list" where
  "searchKnowledgeBase embedQuery indexQuery q =
     (case searchKnowledgeBase_try embedQuery indexQuery q of
        (Inr r, calls) \<Rightarrow> (Inr r, calls)
      | (Inl e, calls) \<Rightarrow>
          (bind_js (read_message e) (\<lambda>m.
             Inr \<lparr>success = False, query = q, results = Some [], resultCount = 0,
                  message = ''Failed to perform knowledge base search: '' @ template_string m,
                  errorDetails = m\<rparr>), calls))"

section \<open>Grounded generation (server.js, generateAnswer)\<close>

text \<open>
  The \<^verbatim>\<open>context\<close> argument is an array of passages or a value that is not an array. A passage
  that is \<^verbatim>\<open>undefined\<close> is \<open>None\<close>. The collaborator is the language model, called with the
  prompt; the second component of the result lists the prompts sent to it.
\<close>

datatype js_context = NotAnArray | Array "string option list"

definition labelled :: "nat \<times> string option \<Rightarrow> string" where
  "labelled p = (case p of (i, c) \<Rightarrow> ''['' @ digits (i + 1) @ ''] '' @ template_string c)"

text \<open>The template of the prompt: the text before the passages and the text after them.\<close>

definition prompt_head :: "string \<Rightarrow> string" where
  "prompt_head question =
     ''You are a helpful assistant. Answer the question using ONLY the provided context.\<newline>'' @
     ''If the answer is not found in the context, state that clearly and do not make up information.\<newline>'' @
     ''\<newline>'' @
     ''Question: '' @ question @ ''\<newline>'' @
     ''\<newline>'' @
     ''Context:\<newline>''"

definition prompt_tail :: string where
  "prompt_tail =
     ''\<newline>'' @
     ''\<newline>'' @
     ''Answer with citations (e.g., [1], [2]):''"

definition answer_prompt :: "string \<Rightarrow> string option list \<Rightarrow> string" where
  "answer_prompt question passages =
     prompt_head question @ join ''\<newline>\<newline>'' (map labelled (enumerate 0 passages)) @ prompt_tail"

definition generateAnswer ::
  "(string \<Rightarrow> js_error + string option) \<Rightarrow> string \<Rightarrow> js_context \<Rightarrow>
     (js_error + string option) \<times> string list" where
  "generateAnswer generateContent question ctx =
     (case ctx of
        NotAnArray \<Rightarrow> (Inl (Error ''No context available for answer generation''), [])
      | Array passages \<Rightarrow>
          if length passages = 0
          then (Inl (Error ''No context available for answer generation''), [])
          else (generateContent (answer_prompt question passages),
                [answer_prompt question passages]))"

section \<open>Indexing (server.js, storeInPinecone)\<close>

text \<open>
  A record of the index has the fields \<^verbatim>\<open>id\<close>, \<^verbatim>\<open>values\<close> and \<^verbatim>\<open>metadata\<close> (\<^verbatim>\<open>text\<close> and
  \<^verbatim>\<open>timestamp\<close>). The identifier and the timestamp read the clock and the random generator;
  \<open>entropy\<close> gives what \<^verbatim>\<open>Date.now()\<close>, \<^verbatim>\<open>Math.random().toString(36).substr(2, 9)\<close> and
  \<^verbatim>\<open>new Date().toISOString()\<close> return while the record at a position is built.
\<close>

record entropy =
  dateNow :: "nat \<Rightarrow> int"
  randomSuffix :: "nat \<Rightarrow> string"
  isoString :: "nat \<Rightarrow> string"

record stored_metadata =
  stored_text :: string
  timestamp :: string

record 'v index_record =
  record_id :: string
  record_values :: 'v
  record_metadata :: stored_metadata

text \<open>
  \<^verbatim>\<open>vectors[i]\<close> is read only after the lengths were found equal, so the index is in range.
\<close>

definition buildRecord :: "entropy \<Rightarrow> 'v list \<Rightarrow> nat \<times> string \<Rightarrow> 'v index_record" where
  "buildRecord env vectors p =
     (case p of (i, chunk) \<Rightarrow>
        \<lparr>record_id = ''chunk_'' @ digits i @ ''_'' @ decimal (dateNow env i) @ ''_'' @ randomSuffix env i,
         record_values = vectors ! i,
         record_metadata = \<lparr>stored_text = chunk, timestamp = isoString env i\<rparr>\<rparr>)"

text \<open>
  The batch loop. The vector store may answer each call differently, so \<open>upsert\<close> takes the
  number of earlier calls and the batch. The result is the error that ended the loop, if
  any, and the batches sent, in order.
\<close>

function upsertBatches ::
  "(nat \<Rightarrow> 'r list \<Rightarrow> js_error + unit) \<Rightarrow> 'r list \<Rightarrow> nat \<Rightarrow> js_error option \<times> 'r list list" where
  "upsertBatches upsert records i =
     (if i < length records then
        (case upsert (i div 100) (take 100 (drop i records)) of
           Inl e \<Rightarrow> (Some e, [take 100 (drop i records)])
         | Inr u \<Rightarrow>
             (case upsertBatches upsert records (i + 100) of
                (r, calls) \<Rightarrow> (r, take 100 (drop i records) # calls)))
      else (None, []))"
  by pat_completeness auto
termination
  by (relation "measure (\<lambda>(upsert, records, i). length records - i)") auto

declare upsertBatches.simps [simp del]

definition storeInPinecone ::
  "entropy \<Rightarrow> (nat \<Rightarrow> 'v index_record list \<Rightarrow> js_error + unit) \<Rightarrow> string list \<Rightarrow> 'v list \<Rightarrow>
     (js_error + nat) \<times> 'v index_record list list" where
  "storeInPinecone env upsert chunks vectors =
     (if length chunks \<noteq> length vectors
      then (Inl (Error ''Mismatch between chunks and vectors length''), [])
      else
        let records = map (buildRecord env vectors) (enumerate 0 chunks)
        in case upsertBatches upsert records 0 of
             (Some e, calls) \<Rightarrow> (Inl e, calls)
           | (None, calls) \<Rightarrow> (Inr (length records), calls))"

section \<open>The tool dispatcher (agent.js, executeTools)\<close>

text \<open>
  The agent is constructed with three collaborators, \<^verbatim>\<open>searchKnowledgeBase\<close>,
  \<^verbatim>\<open>generateAnswer\<close> and \<^verbatim>\<open>queryCounter\<close>; here they are the arguments \<open>search\<close>, \<open>generate\<close>
  and \<open>counter\<close>, each of which returns or throws. The second component of the result is
  the list of the calls made to them.

  What \<open>search\<close> returns is an object with the fields of a search response. It may also
  have a \<^verbatim>\<open>type\<close> property of its own (\<open>own_type\<close>, \<open>None\<close> when it has none), which no object
  built by \<open>searchKnowledgeBase\<close> has. \<open>generate\<close> returns a string and \<open>counter\<close> an integer
  number, as the class documents them.
\<close>

record response_object = search_response +
  own_type :: "js_value option"

datatype tool_call = SearchCall string | GenerateCall string "js_value list" | CounterCall

text \<open>
  The output objects: \<^verbatim>\<open>{type: "answer", answer, chunksRetrieved, searchResults?}\<close>,
  \<^verbatim>\<open>{type: "search", ...kbSearchResults}\<close>, \<^verbatim>\<open>{type: "query_count", count}\<close>,
  \<^verbatim>\<open>{type: "error", message}\<close>, and \<open>OtherOutput t\<close>, an object with the property \<^verbatim>\<open>type\<close> alone.
  In \<^verbatim>\<open>{type: "search", ...kbSearchResults}\<close> the spread comes after the tag, so a \<^verbatim>\<open>type\<close> property
  of the response replaces the tag: \<open>output_type\<close> is what \<^verbatim>\<open>toolOutput.type\<close> reads.
\<close>

datatype tool_output =
    Answer string nat "search_result list option"
  | Search response_object
  | QueryCount int
  | ErrorOutput string
  | OtherOutput js_value

fun output_type :: "tool_output \<Rightarrow> js_value" where
  "output_type (Answer a n rs) = JString ''answer''"
| "output_type (Search r) = (case own_type r of None \<Rightarrow> JString ''search'' | Some t \<Rightarrow> t)"
| "output_type (QueryCount c) = JString ''query_count''"
| "output_type (ErrorOutput m) = JString ''error''"
| "output_type (OtherOutput t) = t"

definition no_information :: string where
  "no_information = ''I couldn't find any relevant information in the document store to answer that question.''"

definition executeTools_try ::
  "(string \<Rightarrow> js_error + response_object) \<Rightarrow> (string \<Rightarrow> js_value list \<Rightarrow> js_error + string) \<Rightarrow>
   (unit \<Rightarrow> js_error + int) \<Rightarrow> string \<Rightarrow> string \<Rightarrow> (js_error + tool_output) \<times> tool_call list" where
  "executeTools_try search generate counter intent_name q =
     (if intent_name = ''answer_question'' then
        (case search q of
           Inl e \<Rightarrow> (Inl e, [SearchCall q])
         | Inr searchResults \<Rightarrow>
             if success searchResults then
               (case results searchResults of
                  None \<Rightarrow> (Inl (cannot_read ''length''), [SearchCall q])
                | Some rs \<Rightarrow>
                    if 0 < length rs then
                      (case generate q (map content rs) of
                         Inl e \<Rightarrow> (Inl e, [SearchCall q, GenerateCall q (map content rs)])
                       | Inr answer \<Rightarrow>
                           (Inr (Answer answer (length (map content rs)) (Some rs)),
                            [SearchCall q, GenerateCall q (map content rs)]))
                    else (Inr (Answer no_information 0 None), [SearchCall q]))
             else (Inr (Answer no_information 0 None), [SearchCall q]))
      else if intent_name = ''search_knowledge_base'' then
        (case search q of
           Inl e \<Rightarrow> (Inl e, [SearchCall q])
         | Inr kbSearchResults \<Rightarrow> (Inr (Search kbSearchResults), [SearchCall q]))
      else if intent_name = ''get_query_count'' then
        (case counter () of
           Inl e \<Rightarrow> (Inl e, [CounterCall])
         | Inr count \<Rightarrow> (Inr (QueryCount count), [CounterCall]))
      else (Inr (ErrorOutput ''I don't understand that request.''), []))"

text \<open>
  The \<^verbatim>\<open>catch\<close> block returns the error output with \<^verbatim>\<open>error.message\<close> printed in a template
  literal.
\<close>

definition executeTools ::
  "(string \<Rightarrow> js_error + response_object) \<Rightarrow> (string \<Rightarrow> js_value list \<Rightarrow> js_error + string) \<Rightarrow>
   (unit \<Rightarrow> js_error + int) \<Rightarrow> string \<Rightarrow> string \<Rightarrow> (js_error + tool_output) \<times> tool_call list" where
  "executeTools search generate counter intent_name q =
     (case executeTools_try search generate counter intent_name q of
        (Inr out, calls) \<Rightarrow> (Inr out, calls)
      | (Inl e, calls) \<Rightarrow>
          (bind_js (read_message e) (\<lambda>m.
             Inr (ErrorOutput (''An error occurred while processing your request: '' @ template_string m))),
           calls))"

section \<open>The response composer (agent.js, generateResponse)\<close>

text \<open>
  The argument \<^verbatim>\<open>toolOutput\<close> is \<^verbatim>\<open>undefined\<close>, \<^verbatim>\<open>null\<close> or an output object.
\<close>

datatype 'a js_optional = UndefinedValue | NullValue | ObjectValue 'a

text \<open>
  The properties that \<open>generateResponse\<close> reads of an output object; a property that the
  object does not have reads as \<^verbatim>\<open>undefined\<close> (\<open>None\<close>, and falsy for \<^verbatim>\<open>success\<close>).
\<close>

fun answer_property :: "tool_output \<Rightarrow> string option" where
  "answer_property (Answer a n rs) = Some a"
| "answer_property out = None"

fun count_property :: "tool_output \<Rightarrow> int option" where
  "count_property (QueryCount c) = Some c"
| "count_property out = None"

fun message_property :: "tool_output \<Rightarrow> string option" where
  "message_property (ErrorOutput m) = Some m"
| "message_property (Search r) = Some (message r)"
| "message_property out = None"

fun success_property :: "tool_output \<Rightarrow> bool" where
  "success_property (Search r) = success r"
| "success_property out = False"

fun resultCount_property :: "tool_output \<Rightarrow> int option" where
  "resultCount_property (Search r) = Some (resultCount r)"
| "resultCount_property out = None"

fun results_property :: "tool_output \<Rightarrow> search_result list option" where
  "results_property (Search r) = results r"
| "results_property out = None"

text \<open>
  \<^verbatim>\<open>toolOutput.resultCount > 0\<close>: \<^verbatim>\<open>undefined > 0\<close> is false.
\<close>

definition greater_than_zero :: "int option \<Rightarrow> bool" where
  "greater_than_zero v = (case v of None \<Rightarrow> False | Some n \<Rightarrow> 0 < n)"

text \<open>
  The three reads of the search branch that can throw: \<^verbatim>\<open>toolOutput.results[0]\<close> throws when
  \<^verbatim>\<open>results\<close> is \<^verbatim>\<open>undefined\<close>, \<^verbatim>\<open>(...).content\<close> throws on \<^verbatim>\<open>undefined\<close>, and
  \<^verbatim>\<open>(...).substring(0, 150)\<close> is a string method: on \<^verbatim>\<open>undefined\<close> or \<^verbatim>\<open>null\<close> the property read
  throws, and on any other value that is not a string \<^verbatim>\<open>substring\<close> is \<^verbatim>\<open>undefined\<close> and the call
  throws (an object carrying a method of that name is not among the values).
\<close>

definition first_result :: "tool_output \<Rightarrow> js_error + search_result option" where
  "first_result out =
     (case results_property out of
        None \<Rightarrow> Inl (cannot_read ''0'')
      | Some rs \<Rightarrow> Inr (case rs of [] \<Rightarrow> None | r # rest \<Rightarrow> Some r))"

definition content_of :: "search_result option \<Rightarrow> js_error + js_value" where
  "content_of r = (case r of None \<Rightarrow> Inl (cannot_read ''content'') | Some x \<Rightarrow> Inr (content x))"

definition substring_0_150 :: "js_value \<Rightarrow> js_error + string" where
  "substring_0_150 c =
     (case c of
        JString t \<Rightarrow> Inr (take 150 t)
      | JUndefined \<Rightarrow> Inl (cannot_read ''substring'')
      | JNull \<Rightarrow> Inl (cannot_read_null ''substring'')
      | JBoolean b \<Rightarrow> Inl (Error ''toolOutput.results[0].content.substring is not a function'')
      | JNumber n \<Rightarrow> Inl (Error ''toolOutput.results[0].content.substring is not a function'')
      | JObject \<Rightarrow> Inl (Error ''toolOutput.results[0].content.substring is not a function''))"

text \<open>
  The guard \<^verbatim>\<open>toolOutput.results && toolOutput.results[0] && toolOutput.results[0].content\<close>,
  evaluated from the left: it tests the content for truthiness, not for being a string.
\<close>

definition safety_check :: "tool_output \<Rightarrow> js_error + bool" where
  "safety_check out =
     (if results_property out = None then Inr False
      else bind_js (first_result out) (\<lambda>r.
        if r = None then Inr False
        else bind_js (content_of r) (\<lambda>c. Inr (truthy c))))"

definition compose_search :: "(int \<Rightarrow> string) \<Rightarrow> tool_output \<Rightarrow> js_error + string option" where
  \<open>compose_search beyond out =
     (if success_property out \<and> greater_than_zero (resultCount_property out) then
        bind_js (safety_check out) (\<lambda>ok.
          if ok then
            bind_js (first_result out) (\<lambda>r.
            bind_js (content_of r) (\<lambda>c.
            bind_js (substring_0_150 c) (\<lambda>t.
              Inr (Some (''Found '' @ template_number beyond (resultCount_property out) @
                         '' relevant results. Here's a snippet from the top result: "'' @
                         (t @ ''...'') @ ''"'')))))
          else Inr (Some (''Found '' @ template_number beyond (resultCount_property out) @
                          '' relevant results in the knowledge base.'')))
      else if success_property out \<and> resultCount_property out = Some 0 then
        Inr (Some ''No relevant documents found for your search query in the knowledge base.'')
      else Inr (Some (''I encountered an issue while searching the knowledge base: '' @
                      template_string (message_property out))))\<close>

text \<open>
  \<open>generateResponse\<close>: the \<^verbatim>\<open>switch\<close> on \<^verbatim>\<open>toolOutput.type\<close>, a read that throws when the argument
  is \<^verbatim>\<open>undefined\<close> or \<^verbatim>\<open>null\<close>. The result is \<open>None\<close> when the function returns \<^verbatim>\<open>undefined\<close>.
\<close>

definition generateResponse ::
  "(int \<Rightarrow> string) \<Rightarrow> string \<Rightarrow> tool_output js_optional \<Rightarrow> js_error + string option" where
  "generateResponse beyond intent_name toolOutput =
     (case toolOutput of
        UndefinedValue \<Rightarrow> Inl (cannot_read ''type'')
      | NullValue \<Rightarrow> Inl (cannot_read_null ''type'')
      | ObjectValue out \<Rightarrow>
          if output_type out = JString ''answer'' then Inr (answer_property out)
          else if output_type out = JString ''search'' then compose_search beyond out
          else if output_type out = JString ''query_count'' then
            Inr (Some (''The total number of queries processed so far is: '' @
                       template_number beyond (count_property out) @ ''.''))
          else if output_type out = JString ''error'' then Inr (message_property out)
          else Inr (Some ''I'm sorry, I couldn't process that request fully. Please try again.''))"

section \<open>Collaborators of the counterexamples\<close>

text \<open>
  A language model that answers with a known label between white space; an embedding
  service that returns a fixed vector (named by its dimension) and one that rejects with
  \<^verbatim>\<open>null\<close>; a vector store without matches; a search collaborator that rejects with \<^verbatim>\<open>null\<close>
  and one whose result has a \<^verbatim>\<open>type\<close> property; an answer generator and a counter that return.
\<close>

definition padded_label_model :: "string \<Rightarrow> js_error + string option" where
  "padded_label_model prompt = Inr (Some '' answer_question\<newline>'')"

definition fixed_embedding :: "string \<Rightarrow> js_error + nat" where
  "fixed_embedding s = Inr 768"

definition null_rejecting_embedding :: "string \<Rightarrow> js_error + nat" where
  "null_rejecting_embedding s = Inl ThrownNull"

definition empty_index :: "nat \<Rightarrow> js_error + scored_match list" where
  "empty_index v = Inr []"

definition null_rejecting_search :: "string \<Rightarrow> js_error + response_object" where
  "null_rejecting_search q = Inl ThrownNull"

definition retagging_search :: "string \<Rightarrow> js_error + response_object" where
  "retagging_search q =
     Inr \<lparr>success = True, query = JString q, results = Some [], resultCount = 0,
          message = ''No relevant results found.'', errorDetails = None,
          own_type = Some (JString ''banner'')\<rparr>"

definition fixed_answer :: "string \<Rightarrow> js_value list \<Rightarrow> js_error + string" where
  "fixed_answer q passages = Inr ''Paris [1]''"

definition fixed_count :: "unit \<Rightarrow> js_error + int" where
  "fixed_count u = Inr 7"

definition numeric_content_output :: "tool_output js_optional" where
  "numeric_content_output =
     ObjectValue (Search
       \<lparr>success = True, query = JString ''capital'',
        results = Some [\<lparr>chunkId = ''chunk_0'', content = JNumber 42, relevanceScore = 1\<rparr>],
        resultCount = 1, message = ''Search completed successfully.'', errorDetails = None,
        own_type = None\<rparr>)"

section \<open>Properties of the intent classifier\<close>

text \<open>
  Claim C1, as the code has it. For every query, every response of the model call and
  every exception it throws other than \<^verbatim>\<open>null\<close> and \<^verbatim>\<open>undefined\<close>, \<open>analyzeIntent\<close> returns (the
  exception is not propagated) an intent among \<^verbatim>\<open>answer_question\<close>, \<^verbatim>\<open>search_knowledge_base\<close>,
  \<^verbatim>\<open>get_query_count\<close> and \<^verbatim>\<open>unknown\<close>. A thrown exception gives \<^verbatim>\<open>unknown\<close> with the exception's
  message attached (nothing is attached when it has none), and so does a result without
  text. A response text is compared after \<^verbatim>\<open>trim()\<close>: it gives \<^verbatim>\<open>unknown\<close> unless the trimmed
  text is one of the three known labels, which is then the intent.
\<close>

theorem analyzeIntent_unknown_safe:
  assumes "generateContent (intent_prompt q) \<noteq> Inl ThrownNull"
    and "generateContent (intent_prompt q) \<noteq> Inl ThrownUndefined"
  shows "\<exists>r. analyzeIntent generateContent q = Inr r \<and>
     intent r \<in> {''answer_question'', ''search_knowledge_base'', ''get_query_count'', ''unknown''} \<and>
     r = (case generateContent (intent_prompt q) of
            Inl (Error m) \<Rightarrow> \<lparr>intent = ''unknown'', error = Some m\<rparr>
          | Inl e \<Rightarrow> \<lparr>intent = ''unknown'', error = None\<rparr>
          | Inr None \<Rightarrow>
              \<lparr>intent = ''unknown'',
               error = Some ''Cannot read properties of undefined (reading 'trim')''\<rparr>
          | Inr (Some t) \<Rightarrow>
              \<lparr>intent = (if trim t \<in> set knownIntents then trim t else ''unknown''), error = None\<rparr>)"
  using assms
  by (auto simp add: analyzeIntent_def analyzeIntent_try_def bind_js_def read_message_def
      cannot_read_def Let_def knownIntents_def split: sum.splits option.splits js_error.splits)

theorem analyzeIntent_unknown_safe_witness:
  "analyzeIntent (\<lambda>p. Inr (Some ''get_query_count'')) ''How many questions have been asked?'' =
     Inr \<lparr>intent = ''get_query_count'', error = None\<rparr> \<and>
   analyzeIntent (\<lambda>p. Inr (Some ''I think: answer_question'')) ''hi'' =
     Inr \<lparr>intent = ''unknown'', error = None\<rparr> \<and>
   analyzeIntent (\<lambda>p. Inr None) ''hi'' =
     Inr \<lparr>intent = ''unknown'',
          error = Some ''Cannot read properties of undefined (reading 'trim')''\<rparr> \<and>
   analyzeIntent (\<lambda>p. Inl (Error ''quota exceeded'')) ''hi'' =
     Inr \<lparr>intent = ''unknown'', error = Some ''quota exceeded''\<rparr> \<and>
   analyzeIntent (\<lambda>p. Inl ThrownWithoutMessage) ''hi'' =
     Inr \<lparr>intent = ''unknown'', error = None\<rparr>"
  using analyzeIntent_unknown_safe
      [of "\<lambda>p. Inr (Some ''get_query_count'')" "''How many questions have been asked?''"]
    analyzeIntent_unknown_safe [of "\<lambda>p. Inr (Some ''I think: answer_question'')" "''hi''"]
    analyzeIntent_unknown_safe [of "\<lambda>p. Inr None" "''hi''"]
    analyzeIntent_unknown_safe [of "\<lambda>p. Inl (Error ''quota exceeded'')" "''hi''"]
    analyzeIntent_unknown_safe [of "\<lambda>p. Inl ThrownWithoutMessage" "''hi''"]
  by (simp add: trim_def is_js_space_def knownIntents_def)

text \<open>
  Claim C1 as it is written fails: the raw response \<^verbatim>\<open>" answer_question\n"\<close> is not equal to a
  known label, and the intent is \<^verbatim>\<open>answer_question\<close>, not \<^verbatim>\<open>unknown\<close>.
\<close>

theorem analyzeIntent_trims_counterexample:
  "padded_label_model (intent_prompt ''What is the capital of France?'') =
     Inr (Some '' answer_question\<newline>'') \<and>
   '' answer_question\<newline>'' \<notin> set knownIntents \<and>
   analyzeIntent padded_label_model ''What is the capital of France?'' =
     Inr \<lparr>intent = ''answer_question'', error = None\<rparr>"
  by (simp add: analyzeIntent_def analyzeIntent_try_def bind_js_def Let_def trim_def
      is_js_space_def knownIntents_def padded_label_model_def)

text \<open>
  A model call that rejects with \<^verbatim>\<open>null\<close> or \<^verbatim>\<open>undefined\<close> is not caught: the read of
  \<^verbatim>\<open>error.message\<close> in the \<^verbatim>\<open>catch\<close> block throws.
\<close>

lemma analyzeIntent_nullish_rejection:
  "generateContent (intent_prompt q) = Inl ThrownNull \<Longrightarrow>
     analyzeIntent generateContent q =
       Inl (Error ''Cannot read properties of null (reading 'message')'')"
  "generateContent (intent_prompt q) = Inl ThrownUndefined \<Longrightarrow>
     analyzeIntent generateContent q =
       Inl (Error ''Cannot read properties of undefined (reading 'message')'')"
  by (simp_all add: analyzeIntent_def analyzeIntent_try_def bind_js_def read_message_def
      cannot_read_def cannot_read_null_def)

section \<open>Properties of the tool dispatcher\<close>

text \<open>
  Claim C2, as the code has it. For every intent string and every query, and for
  collaborators that never reject with \<^verbatim>\<open>null\<close> or \<^verbatim>\<open>undefined\<close>, \<open>executeTools\<close> returns (it
  does not throw) an output, never one with the \<^verbatim>\<open>type\<close> property alone. When the result of
  \<^verbatim>\<open>searchKnowledgeBase\<close> has no \<^verbatim>\<open>type\<close> property of its own, the tag of the output is one of
  \<^verbatim>\<open>answer\<close>, \<^verbatim>\<open>search\<close>, \<^verbatim>\<open>query_count\<close> and \<^verbatim>\<open>error\<close>. An exception thrown by
  \<^verbatim>\<open>searchKnowledgeBase\<close>, by \<^verbatim>\<open>generateAnswer\<close> or by \<^verbatim>\<open>queryCounter\<close> during the dispatch
  becomes the \<^verbatim>\<open>error\<close> output whose message ends with the exception's message (with the word
  \<^verbatim>\<open>undefined\<close> when it has none).
\<close>

theorem executeTools_error_boundary:
  assumes "\<forall>x. search x \<noteq> Inl ThrownNull \<and> search x \<noteq> Inl ThrownUndefined"
    and "\<forall>x c. generate x c \<noteq> Inl ThrownNull \<and> generate x c \<noteq> Inl ThrownUndefined"
    and "counter () \<noteq> Inl ThrownNull \<and> counter () \<noteq> Inl ThrownUndefined"
  shows
  "(\<exists>out. fst (executeTools search generate counter i q) = Inr out \<and>
      (\<forall>t. out \<noteq> OtherOutput t) \<and>
      ((\<forall>sr. search q = Inr sr \<longrightarrow> own_type sr = None) \<longrightarrow>
         output_type out \<in>
           {JString ''answer'', JString ''search'', JString ''query_count'', JString ''error''})) \<and>
   (\<forall>e. (i = ''answer_question'' \<or> i = ''search_knowledge_base'') \<and> search q = Inl e \<longrightarrow>
      fst (executeTools search generate counter i q) =
        Inr (ErrorOutput (''An error occurred while processing your request: '' @
                          (case e of Error m \<Rightarrow> m | _ \<Rightarrow> ''undefined'')))) \<and>
   (\<forall>e sr rs. i = ''answer_question'' \<and> search q = Inr sr \<and> success sr \<and> results sr = Some rs \<and>
       rs \<noteq> [] \<and> generate q (map content rs) = Inl e \<longrightarrow>
      fst (executeTools search generate counter i q) =
        Inr (ErrorOutput (''An error occurred while processing your request: '' @
                          (case e of Error m \<Rightarrow> m | _ \<Rightarrow> ''undefined'')))) \<and>
   (\<forall>e. i = ''get_query_count'' \<and> counter () = Inl e \<longrightarrow>
      fst (executeTools search generate counter i q) =
        Inr (ErrorOutput (''An error occurred while processing your request: '' @
                          (case e of Error m \<Rightarrow> m | _ \<Rightarrow> ''undefined''))))"
proof -
  have s: "search q \<noteq> Inl ThrownNull" "search q \<noteq> Inl ThrownUndefined"
    using assms(1) by simp_all
  have g: "generate q c \<noteq> Inl ThrownNull" "generate q c \<noteq> Inl ThrownUndefined" for c
    using assms(2) by simp_all
  have c: "counter () \<noteq> Inl ThrownNull" "counter () \<noteq> Inl ThrownUndefined"
    using assms(3) by simp_all
  show ?thesis
    using s g c
    by (auto simp add: executeTools_def executeTools_try_def bind_js_def read_message_def
        template_string_def cannot_read_def
        split: sum.splits option.splits prod.splits if_splits js_error.splits)
qed

theorem executeTools_error_boundary_witness:
  "fst (executeTools (\<lambda>q. Inl (Error ''index unreachable'')) (\<lambda>q c. Inr ''an answer'') (\<lambda>u. Inr 7)
          ''search_knowledge_base'' ''vector stores'') =
     Inr (ErrorOutput ''An error occurred while processing your request: index unreachable'') \<and>
   fst (executeTools (\<lambda>q. Inl ThrownWithoutMessage) (\<lambda>q c. Inr ''an answer'')
          (\<lambda>u. Inl (Error ''Failed to update query count.'')) ''get_query_count'' ''how many?'') =
     Inr (ErrorOutput ''An error occurred while processing your request: Failed to update query count.'') \<and>
   fst (executeTools (\<lambda>q. Inl ThrownWithoutMessage) (\<lambda>q c. Inr ''an answer'') (\<lambda>u. Inr 7)
          ''answer_question'' ''what?'') =
     Inr (ErrorOutput ''An error occurred while processing your request: undefined'')"
  using executeTools_error_boundary
      [of "\<lambda>q. Inl (Error ''index unreachable'')" "\<lambda>q c. Inr ''an answer''" "\<lambda>u. Inr 7"
        "''search_knowledge_base''" "''vector stores''"]
    executeTools_error_boundary
      [of "\<lambda>q. Inl ThrownWithoutMessage" "\<lambda>q c. Inr ''an answer''"
        "\<lambda>u. Inl (Error ''Failed to update query count.'')" "''get_query_count''" "''how many?''"]
    executeTools_error_boundary
      [of "\<lambda>q. Inl ThrownWithoutMessage" "\<lambda>q c. Inr ''an answer''" "\<lambda>u. Inr 7"
        "''answer_question''" "''what?''"]
  by simp

text \<open>
  Claim C2 as it is written fails. When \<^verbatim>\<open>searchKnowledgeBase\<close> rejects with \<^verbatim>\<open>null\<close>, the read of
  \<^verbatim>\<open>error.message\<close> in the \<^verbatim>\<open>catch\<close> block throws and \<open>executeTools\<close> itself throws; and when
  its result has the property \<^verbatim>\<open>type: "banner"\<close>, the spread puts that tag on the output.
\<close>

theorem executeTools_boundary_counterexample:
  "fst (executeTools null_rejecting_search fixed_answer fixed_count
          ''search_knowledge_base'' ''vector stores'') =
     Inl (Error ''Cannot read properties of null (reading 'message')'') \<and>
   fst (executeTools retagging_search fixed_answer fixed_count
          ''search_knowledge_base'' ''vector stores'') =
     Inr (Search \<lparr>success = True, query = JString ''vector stores'', results = Some [],
                  resultCount = 0, message = ''No relevant results found.'', errorDetails = None,
                  own_type = Some (JString ''banner'')\<rparr>) \<and>
   output_type (Search \<lparr>success = True, query = JString ''vector stores'', results = Some [],
                  resultCount = 0, message = ''No relevant results found.'', errorDetails = None,
                  own_type = Some (JString ''banner'')\<rparr>) = JString ''banner''"
  by (simp add: executeTools_def executeTools_try_def bind_js_def read_message_def
      cannot_read_null_def null_rejecting_search_def retagging_search_def)

text \<open>
  Claim C3. Dispatching \<^verbatim>\<open>answer_question\<close>: when the retrieval returns zero results, the only
  call is the search (\<^verbatim>\<open>generateAnswer\<close> is not called) and the output is the answer variant
  with the fixed no-information text and \<^verbatim>\<open>chunksRetrieved\<close> 0; when it succeeds with a
  non-empty list of \<open>n\<close> results, \<^verbatim>\<open>generateAnswer\<close> is called once, with the query and exactly
  the \<open>n\<close> contents, and the answer it returns is output with \<^verbatim>\<open>chunksRetrieved\<close> \<open>n\<close>.
\<close>

theorem answer_question_generation:
  "(\<forall>sr. search q = Inr sr \<and> results sr = Some [] \<longrightarrow>
      executeTools search generate counter ''answer_question'' q =
        (Inr (Answer no_information 0 None), [SearchCall q])) \<and>
   (\<forall>sr rs. search q = Inr sr \<and> success sr \<and> results sr = Some rs \<and> rs \<noteq> [] \<longrightarrow>
      snd (executeTools search generate counter ''answer_question'' q) =
        [SearchCall q, GenerateCall q (map content rs)] \<and>
      length (map content rs) = length rs \<and>
      (\<forall>a. generate q (map content rs) = Inr a \<longrightarrow>
         fst (executeTools search generate counter ''answer_question'' q) =
           Inr (Answer a (length rs) (Some rs))))"
  by (auto simp add: executeTools_def executeTools_try_def
      split: sum.splits option.splits prod.splits if_splits)

theorem answer_question_generation_witness:
  "executeTools
     (\<lambda>q. Inr \<lparr>success = True, query = JString q, results = Some [], resultCount = 0,
               message = ''No relevant results found.'', errorDetails = None, own_type = None\<rparr>)
     (\<lambda>q c. Inr ''never used'') (\<lambda>u. Inr 1) ''answer_question'' ''What is the capital of Peru?'' =
     (Inr (Answer no_information 0 None), [SearchCall ''What is the capital of Peru?'']) \<and>
   executeTools
     (\<lambda>q. Inr \<lparr>success = True, query = JString q,
               results = Some [\<lparr>chunkId = ''chunk_0'', content = JString ''Paris is the capital of France.'',
                                relevanceScore = 1\<rparr>,
                               \<lparr>chunkId = ''chunk_1'', content = JString ''Lyon is a major city.'',
                                relevanceScore = 9 / 10\<rparr>],
               resultCount = 2, message = ''Search completed successfully.'', errorDetails = None, own_type = None\<rparr>)
     (\<lambda>q c. Inr ''Paris [1]'') (\<lambda>u. Inr 1) ''answer_question'' ''What is the capital of France?'' =
     (Inr (Answer ''Paris [1]'' 2
            (Some [\<lparr>chunkId = ''chunk_0'', content = JString ''Paris is the capital of France.'',
                     relevanceScore = 1\<rparr>,
                   \<lparr>chunkId = ''chunk_1'', content = JString ''Lyon is a major city.'',
                     relevanceScore = 9 / 10\<rparr>])),
      [SearchCall ''What is the capital of France?'',
       GenerateCall ''What is the capital of France?''
         [JString ''Paris is the capital of France.'', JString ''Lyon is a major city.'']])"
  using answer_question_generation
      [of "\<lambda>q. Inr \<lparr>success = True, query = JString q, results = Some [], resultCount = 0,
               message = ''No relevant results found.'', errorDetails = None, own_type = None\<rparr>"
        "''What is the capital of Peru?''" "\<lambda>q c. Inr ''never used''" "\<lambda>u. Inr 1"]
    answer_question_generation
      [of "\<lambda>q. Inr \<lparr>success = True, query = JString q,
               results = Some [\<lparr>chunkId = ''chunk_0'', content = JString ''Paris is the capital of France.'',
                                relevanceScore = 1\<rparr>,
                               \<lparr>chunkId = ''chunk_1'', content = JString ''Lyon is a major city.'',
                                relevanceScore = 9 / 10\<rparr>],
               resultCount = 2, message = ''Search completed successfully.'', errorDetails = None, own_type = None\<rparr>"
        "''What is the capital of France?''" "\<lambda>q c. Inr ''Paris [1]''" "\<lambda>u. Inr 1"]
  by (simp add: prod_eq_iff)

text \<open>
  Claim C10. Dispatching \<^verbatim>\<open>answer_question\<close>: when \<^verbatim>\<open>searchKnowledgeBase\<close> returns a failure
  (\<^verbatim>\<open>success\<close> false), the output is the answer variant with the no-information text and
  \<^verbatim>\<open>chunksRetrieved\<close> 0, not the error variant, and it equals the output of a dispatch
  whose retrieval succeeded with no results.
\<close>

theorem failed_retrieval_answers_like_empty:
  "search q = Inr sr \<Longrightarrow> \<not> success sr \<Longrightarrow>
   search' q = Inr sr' \<Longrightarrow> success sr' \<Longrightarrow> results sr' = Some [] \<Longrightarrow>
     executeTools search generate counter ''answer_question'' q =
       (Inr (Answer no_information 0 None), [SearchCall q]) \<and>
     executeTools search generate counter ''answer_question'' q =
       executeTools search' generate counter ''answer_question'' q"
  by (auto simp add: executeTools_def executeTools_try_def
      split: sum.splits option.splits prod.splits if_splits)

theorem failed_retrieval_answers_like_empty_witness:
  "executeTools
     (\<lambda>q. Inr \<lparr>success = False, query = JString q, results = Some [], resultCount = 0,
               message = ''Failed to perform knowledge base search: timeout'',
               errorDetails = Some ''timeout'', own_type = None\<rparr>)
     (\<lambda>q c. Inr ''never used'') (\<lambda>u. Inr 1) ''answer_question'' ''What is RAG?'' =
     (Inr (Answer no_information 0 None), [SearchCall ''What is RAG?''])"
  using failed_retrieval_answers_like_empty
      [of "\<lambda>q. Inr \<lparr>success = False, query = JString q, results = Some [], resultCount = 0,
               message = ''Failed to perform knowledge base search: timeout'',
               errorDetails = Some ''timeout'', own_type = None\<rparr>"
        "''What is RAG?''"
        "\<lparr>success = False, query = JString ''What is RAG?'', results = Some [], resultCount = 0,
               message = ''Failed to perform knowledge base search: timeout'',
               errorDetails = Some ''timeout'', own_type = None\<rparr>"
        "\<lambda>q. Inr \<lparr>success = True, query = JString q, results = Some [], resultCount = 0,
               message = ''No relevant results found.'', errorDetails = None, own_type = None\<rparr>"
        "\<lparr>success = True, query = JString ''What is RAG?'', results = Some [], resultCount = 0,
               message = ''No relevant results found.'', errorDetails = None, own_type = None\<rparr>"
        "\<lambda>q c. Inr ''never used''" "\<lambda>u. Inr 1"]
  by simp

text \<open>
  Claim C7, as the code has it. For a search output with \<^verbatim>\<open>success\<close> true and
  \<^verbatim>\<open>resultCount > 0\<close>: when the top result's content is a non-empty string, the composed
  response is the count and a preview made of the first 150 characters (at most) of that
  content, followed by three dots; when the \<^verbatim>\<open>results\<close> array, its first element or that
  element's content is missing or falsy (as the empty string is), the response is the
  count-only message. With \<^verbatim>\<open>success\<close> true and \<^verbatim>\<open>resultCount\<close> 0 it is the fixed no-results message. The
  count is printed as its decimal numeral (up to \<open>2 ^ 53\<close>). \<open>generateResponse\<close> throws
  exactly when the tool output is \<^verbatim>\<open>undefined\<close> or \<^verbatim>\<open>null\<close>, or is such a search output whose top
  result has a truthy content that is not a string; for every other output it returns.
\<close>

theorem generateResponse_search:
  \<open>(\<forall>r rest c. output_type (Search s) = JString ''search'' \<and> success s \<and> 0 < resultCount s \<and>
       results s = Some (r # rest) \<and> content r = JString c \<and> c \<noteq> [] \<longrightarrow>
      generateResponse beyond i (ObjectValue (Search s)) =
        Inr (Some (''Found '' @ number_string beyond (resultCount s) @
                   '' relevant results. Here's a snippet from the top result: "'' @
                   take 150 c @ ''..."'')) \<and>
      length (take 150 c) \<le> 150) \<and>
   (output_type (Search s) = JString ''search'' \<and> success s \<and> 0 < resultCount s \<and>
      (results s = None \<or> results s = Some [] \<or>
       (\<exists>r rest. results s = Some (r # rest) \<and> \<not> truthy (content r))) \<longrightarrow>
      generateResponse beyond i (ObjectValue (Search s)) =
        Inr (Some (''Found '' @ number_string beyond (resultCount s) @
                   '' relevant results in the knowledge base.''))) \<and>
   (output_type (Search s) = JString ''search'' \<and> success s \<and> resultCount s = 0 \<longrightarrow>
      generateResponse beyond i (ObjectValue (Search s)) =
        Inr (Some ''No relevant documents found for your search query in the knowledge base.'')) \<and>
   (\<bar>resultCount s\<bar> \<le> 2 ^ 53 \<longrightarrow> number_string beyond (resultCount s) = decimal (resultCount s)) \<and>
   (\<forall>out. (\<exists>e. generateResponse beyond i out = Inl e) \<longleftrightarrow>
      (out = UndefinedValue \<or> out = NullValue \<or>
       (\<exists>s r rest. out = ObjectValue (Search s) \<and> output_type (Search s) = JString ''search'' \<and>
          success s \<and> 0 < resultCount s \<and> results s = Some (r # rest) \<and>
          truthy (content r) \<and> \<not> is_string (content r))))\<close>
proof (intro conjI allI impI)
  fix r rest c
  assume "output_type (Search s) = JString ''search'' \<and> success s \<and> 0 < resultCount s \<and>
       results s = Some (r # rest) \<and> content r = JString c \<and> c \<noteq> []"
  then show \<open>generateResponse beyond i (ObjectValue (Search s)) =
        Inr (Some (''Found '' @ number_string beyond (resultCount s) @
                   '' relevant results. Here's a snippet from the top result: "'' @
                   take 150 c @ ''..."''))\<close>
    by (simp add: generateResponse_def compose_search_def safety_check_def first_result_def
        content_of_def substring_0_150_def bind_js_def greater_than_zero_def template_number_def)
next
  fix c :: string
  show "length (take 150 c) \<le> 150" by simp
next
  assume "output_type (Search s) = JString ''search'' \<and> success s \<and> 0 < resultCount s \<and>
      (results s = None \<or> results s = Some [] \<or>
       (\<exists>r rest. results s = Some (r # rest) \<and> \<not> truthy (content r)))"
  then show "generateResponse beyond i (ObjectValue (Search s)) =
        Inr (Some (''Found '' @ number_string beyond (resultCount s) @
                   '' relevant results in the knowledge base.''))"
    by (auto simp add: generateResponse_def compose_search_def safety_check_def first_result_def
        content_of_def bind_js_def greater_than_zero_def template_number_def)
next
  assume "output_type (Search s) = JString ''search'' \<and> success s \<and> resultCount s = 0"
  then show "generateResponse beyond i (ObjectValue (Search s)) =
        Inr (Some ''No relevant documents found for your search query in the knowledge base.'')"
    by (simp add: generateResponse_def compose_search_def greater_than_zero_def)
next
  assume "\<bar>resultCount s\<bar> \<le> 2 ^ 53"
  then show "number_string beyond (resultCount s) = decimal (resultCount s)"
    by (simp add: number_string_def)
next
  fix out
  show "(\<exists>e. generateResponse beyond i out = Inl e) \<longleftrightarrow>
      (out = UndefinedValue \<or> out = NullValue \<or>
       (\<exists>s r rest. out = ObjectValue (Search s) \<and> output_type (Search s) = JString ''search'' \<and>
          success s \<and> 0 < resultCount s \<and> results s = Some (r # rest) \<and>
          truthy (content r) \<and> \<not> is_string (content r)))"
  proof (cases out)
    case UndefinedValue
    then show ?thesis by (simp add: generateResponse_def)
  next
    case NullValue
    then show ?thesis by (simp add: generateResponse_def)
  next
    case (ObjectValue x)
    show ?thesis
    proof (cases x)
      case (Search sr)
      show ?thesis
      proof (cases "results sr")
        case None
        with ObjectValue Search show ?thesis
          by (auto simp add: generateResponse_def compose_search_def safety_check_def bind_js_def
              greater_than_zero_def)
      next
        case (Some rs)
        show ?thesis
        proof (cases rs)
          case Nil
          with ObjectValue Search Some show ?thesis
            by (auto simp add: generateResponse_def compose_search_def safety_check_def
                first_result_def bind_js_def greater_than_zero_def)
        next
          case (Cons r rest)
          with ObjectValue Search Some show ?thesis
            by (cases "content r")
              (auto simp add: generateResponse_def compose_search_def safety_check_def
                first_result_def content_of_def substring_0_150_def bind_js_def
                greater_than_zero_def)
        qed
      qed
    qed (use ObjectValue in \<open>auto simp add: generateResponse_def compose_search_def
        greater_than_zero_def\<close>)
  qed
qed

theorem generateResponse_search_witness:
  \<open>generateResponse decimal ''search_knowledge_base''
     (ObjectValue (Search \<lparr>success = True, query = JString ''capital'',
              results = Some [\<lparr>chunkId = ''chunk_0'', content = JString ''Paris is the capital of France.'',
                               relevanceScore = 1\<rparr>],
              resultCount = 1, message = ''Search completed successfully.'', errorDetails = None,
              own_type = None\<rparr>)) =
     Inr (Some ''Found 1 relevant results. Here's a snippet from the top result: "Paris is the capital of France...."'') \<and>
   generateResponse decimal ''search_knowledge_base''
     (ObjectValue (Search \<lparr>success = True, query = JString ''capital'',
              results = Some [\<lparr>chunkId = ''chunk_0'', content = JUndefined, relevanceScore = 1\<rparr>],
              resultCount = 12, message = ''Search completed successfully.'', errorDetails = None,
              own_type = None\<rparr>)) =
     Inr (Some ''Found 12 relevant results in the knowledge base.'') \<and>
   generateResponse decimal ''search_knowledge_base''
     (ObjectValue (Search \<lparr>success = True, query = JString ''capital'', results = Some [],
              resultCount = 0, message = ''No relevant results found.'', errorDetails = None,
              own_type = None\<rparr>)) =
     Inr (Some ''No relevant documents found for your search query in the knowledge base.'')\<close>
  using generateResponse_search
      [of "\<lparr>success = True, query = JString ''capital'',
              results = Some [\<lparr>chunkId = ''chunk_0'', content = JString ''Paris is the capital of France.'',
                               relevanceScore = 1\<rparr>],
              resultCount = 1, message = ''Search completed successfully.'', errorDetails = None,
              own_type = None\<rparr>"
        decimal "''search_knowledge_base''"]
    generateResponse_search
      [of "\<lparr>success = True, query = JString ''capital'',
              results = Some [\<lparr>chunkId = ''chunk_0'', content = JUndefined, relevanceScore = 1\<rparr>],
              resultCount = 12, message = ''Search completed successfully.'', errorDetails = None,
              own_type = None\<rparr>"
        decimal "''search_knowledge_base''"]
    generateResponse_search
      [of "\<lparr>success = True, query = JString ''capital'', results = Some [],
              resultCount = 0, message = ''No relevant results found.'', errorDetails = None,
              own_type = None\<rparr>"
        decimal "''search_knowledge_base''"]
  by (simp add: decimal_def digits.simps)

text \<open>
  Claim C7 as it is written fails: the guard lets a content that is the number 42 through,
  and the call of \<^verbatim>\<open>substring\<close> on it throws; and an \<^verbatim>\<open>undefined\<close> tool output makes the read of
  its \<^verbatim>\<open>type\<close> throw.
\<close>

theorem generateResponse_throws_counterexample:
  "generateResponse decimal ''search_knowledge_base'' numeric_content_output =
     Inl (Error ''toolOutput.results[0].content.substring is not a function'') \<and>
   generateResponse decimal ''search_knowledge_base'' UndefinedValue =
     Inl (Error ''Cannot read properties of undefined (reading 'type')'')"
  by (simp add: generateResponse_def compose_search_def safety_check_def first_result_def
      content_of_def substring_0_150_def bind_js_def greater_than_zero_def cannot_read_def
      numeric_content_output_def)

section \<open>Properties of the retrieval\<close>

text \<open>
  Claim C9, as the code has it. For every query value, and for an embedding service and a
  vector store that never reject with \<^verbatim>\<open>null\<close> or \<^verbatim>\<open>undefined\<close>, \<open>searchKnowledgeBase\<close> returns (it
  does not throw) an object with a \<^verbatim>\<open>results\<close> array and \<^verbatim>\<open>resultCount\<close> equal to its length. The
  object has \<^verbatim>\<open>success\<close> true exactly when the query is valid and \<open>queryDocument\<close> returned;
  otherwise it has \<^verbatim>\<open>success\<close> false, an empty \<^verbatim>\<open>results\<close> array and \<^verbatim>\<open>resultCount\<close> 0, and when
  \<open>queryDocument\<close> threw, its message ends with the exception's message.
\<close>

theorem searchKnowledgeBase_total:
  assumes "\<forall>s. embedQuery s \<noteq> Inl ThrownNull \<and> embedQuery s \<noteq> Inl ThrownUndefined"
    and "\<forall>v. indexQuery v \<noteq> Inl ThrownNull \<and> indexQuery v \<noteq> Inl ThrownUndefined"
  shows
  "(\<exists>r rs. fst (searchKnowledgeBase embedQuery indexQuery q) = Inr r \<and>
      results r = Some rs \<and> resultCount r = int (length rs) \<and>
      (\<not> success r \<longrightarrow> rs = [] \<and> resultCount r = 0) \<and>
      (success r \<longleftrightarrow>
         \<not> invalid_query q \<and> (\<exists>chunks. fst (queryDocument embedQuery indexQuery q) = Inr chunks))) \<and>
   (\<forall>e. \<not> invalid_query q \<and> fst (queryDocument embedQuery indexQuery q) = Inl e \<longrightarrow>
      fst (searchKnowledgeBase embedQuery indexQuery q) =
        Inr \<lparr>success = False, query = q, results = Some [], resultCount = 0,
             message = ''Failed to perform knowledge base search: '' @
                       (case e of Error m \<Rightarrow> m | _ \<Rightarrow> ''undefined''),
             errorDetails = (case e of Error m \<Rightarrow> Some m | _ \<Rightarrow> None)\<rparr>)"
proof -
  have e: "embedQuery s \<noteq> Inl ThrownNull" "embedQuery s \<noteq> Inl ThrownUndefined" for s
    using assms(1) by simp_all
  have x: "indexQuery v \<noteq> Inl ThrownNull" "indexQuery v \<noteq> Inl ThrownUndefined" for v
    using assms(2) by simp_all
  have q: "fst (queryDocument embedQuery indexQuery q) \<noteq> Inl ThrownNull"
    "fst (queryDocument embedQuery indexQuery q) \<noteq> Inl ThrownUndefined"
    using e x by (auto simp add: queryDocument_def split: sum.splits)
  show ?thesis
    using q
    by (auto simp add: searchKnowledgeBase_def searchKnowledgeBase_try_def Let_def bind_js_def
        read_message_def template_string_def
        split: sum.splits prod.splits if_splits js_error.splits)
qed

theorem searchKnowledgeBase_total_witness:
  "fst (searchKnowledgeBase (\<lambda>s. Inl (Error ''embedding service down'')) (\<lambda>v::nat. Inr [])
          (JString ''What is RAG?'')) =
     Inr \<lparr>success = False, query = JString ''What is RAG?'', results = Some [], resultCount = 0,
          message = ''Failed to perform knowledge base search: embedding service down'',
          errorDetails = Some ''embedding service down''\<rparr>"
  using searchKnowledgeBase_total
      [of "\<lambda>s. Inl (Error ''embedding service down'')" "\<lambda>v::nat. Inr []" "JString ''What is RAG?''"]
  by (simp add: queryDocument_def invalid_query_def trim_def is_js_space_def)

text \<open>
  Claim C9 as it is written fails: when the embedding service rejects with \<^verbatim>\<open>null\<close>, the read
  of \<^verbatim>\<open>error.message\<close> in the \<^verbatim>\<open>catch\<close> block throws and \<open>searchKnowledgeBase\<close> itself throws.
\<close>

theorem searchKnowledgeBase_null_counterexample:
  "fst (searchKnowledgeBase null_rejecting_embedding empty_index (JString ''What is RAG?'')) =
     Inl (Error ''Cannot read properties of null (reading 'message')'')"
  by (simp add: searchKnowledgeBase_def searchKnowledgeBase_try_def queryDocument_def
      invalid_query_def trim_def is_js_space_def bind_js_def read_message_def
      cannot_read_null_def null_rejecting_embedding_def)

text \<open>
  Claim C8, as the code has it. \<open>queryDocument\<close> throws, before the embedding call, on every
  query that is not a string or is the empty string. \<open>searchKnowledgeBase\<close> fails (it returns
  \<^verbatim>\<open>success\<close> false with the validation message) on every query that is not a string, is empty
  or consists only of white space, without calling \<open>queryDocument\<close>: no service is reached.
\<close>

theorem invalid_query_rejected:
  "((\<forall>s. q = JString s \<longrightarrow> s = []) \<longrightarrow>
      queryDocument embedQuery indexQuery q = (Inl (Error ''Invalid question provided''), [])) \<and>
   ((\<forall>s. q = JString s \<longrightarrow> trim s = []) \<longrightarrow>
      searchKnowledgeBase embedQuery indexQuery q =
        (Inr \<lparr>success = False, query = q, results = Some [], resultCount = 0,
              message = ''Failed to perform knowledge base search: Query cannot be empty or invalid.'',
              errorDetails = Some ''Query cannot be empty or invalid.''\<rparr>, []))"
  by (cases q)
    (auto simp add: queryDocument_def searchKnowledgeBase_def searchKnowledgeBase_try_def
      invalid_query_def bind_js_def read_message_def template_string_def)

theorem invalid_query_rejected_witness:
  "queryDocument (\<lambda>s. Inr (768::nat)) (\<lambda>v. Inr []) JNull =
     (Inl (Error ''Invalid question provided''), []) \<and>
   trim '' \<newline> '' = [] \<and>
   searchKnowledgeBase (\<lambda>s. Inr (768::nat)) (\<lambda>v. Inr []) (JString '' \<newline> '') =
     (Inr \<lparr>success = False, query = JString '' \<newline> '', results = Some [], resultCount = 0,
           message = ''Failed to perform knowledge base search: Query cannot be empty or invalid.'',
           errorDetails = Some ''Query cannot be empty or invalid.''\<rparr>, [])"
  using invalid_query_rejected [of JNull "\<lambda>s. Inr (768::nat)" "\<lambda>v. Inr []"]
    invalid_query_rejected [of "JString '' \<newline> ''" "\<lambda>s. Inr (768::nat)" "\<lambda>v. Inr []"]
  by (simp add: trim_def is_js_space_def)

text \<open>
  Claim C8 as it is written fails for \<open>queryDocument\<close>: a query of three spaces passes its guard,
  is sent to the embedding service and then to the vector store, and the call returns.
\<close>

theorem queryDocument_whitespace_counterexample:
  "trim ''   '' = [] \<and>
   queryDocument fixed_embedding empty_index (JString ''   '') =
     (Inr [], [EmbedQuery ''   '', IndexQuery 768])"
  by (simp add: queryDocument_def trim_def is_js_space_def fixed_embedding_def empty_index_def)

section \<open>Properties of the generator\<close>

lemma between_intro:
  "s = pre @ x @ post \<Longrightarrow> \<exists>pre post. s = pre @ x @ post"
  by blast

lemma join_nth_between:
  "i < length xs \<Longrightarrow> \<exists>pre post. join sep xs = pre @ xs ! i @ post"
proof (induction sep xs arbitrary: i rule: join.induct)
  case (1 sep)
  then show ?case by simp
next
  case (2 sep x)
  then have "join sep [x] = [] @ [x] ! i @ []" by simp
  then show ?case by (rule between_intro)
next
  case (3 sep x y ys)
  show ?case
  proof (cases i)
    case 0
    then have "join sep (x # y # ys) = [] @ (x # y # ys) ! i @ (sep @ join sep (y # ys))" by simp
    then show ?thesis by (rule between_intro)
  next
    case (Suc k)
    with 3 have "k < length (y # ys)" by simp
    from "3.IH" [OF this] obtain pre post where "join sep (y # ys) = pre @ (y # ys) ! k @ post"
      by blast
    with Suc have "join sep (x # y # ys) = (x @ sep @ pre) @ (x # y # ys) ! i @ post" by simp
    then show ?thesis by (rule between_intro)
  qed
qed

lemma labelled_nth:
  "i < length ps \<Longrightarrow>
   map labelled (enumerate 0 ps) ! i = ''['' @ digits (i + 1) @ ''] '' @ template_string (ps ! i)"
  by (simp add: labelled_def nth_enumerate_eq)

text \<open>
  Claim C4. For every question, \<open>generateAnswer\<close> called with a context that is not an array
  or is the empty array throws, and the language model is not called. For a non-empty
  context of \<open>n\<close> passages the model is called once with the prompt, and the prompt contains,
  for every \<open>i\<close> from 1 to \<open>n\<close>, the label \<^verbatim>\<open>[i]\<close> followed by a space and the \<open>i\<close>-th passage.
\<close>

theorem generateAnswer_requires_context:
  "((ctx = NotAnArray \<or> ctx = Array []) \<longrightarrow>
      generateAnswer generateContent question ctx =
        (Inl (Error ''No context available for answer generation''), [])) \<and>
   (passages \<noteq> [] \<longrightarrow>
      generateAnswer generateContent question (Array passages) =
        (generateContent (answer_prompt question passages), [answer_prompt question passages]) \<and>
      (\<forall>i < length passages. \<exists>pre post.
         answer_prompt question passages =
           pre @ (''['' @ digits (i + 1) @ ''] '' @ template_string (passages ! i)) @ post))"
proof (intro conjI impI allI)
  assume "ctx = NotAnArray \<or> ctx = Array []"
  then show "generateAnswer generateContent question ctx =
        (Inl (Error ''No context available for answer generation''), [])"
    by (auto simp add: generateAnswer_def)
next
  assume "passages \<noteq> []"
  then show "generateAnswer generateContent question (Array passages) =
        (generateContent (answer_prompt question passages), [answer_prompt question passages])"
    by (simp add: generateAnswer_def)
next
  fix i
  assume i: "i < length passages"
  then have "i < length (map labelled (enumerate 0 passages))" by simp
  from join_nth_between [OF this, of "''\<newline>\<newline>''"] obtain pre post where
    j: "join ''\<newline>\<newline>'' (map labelled (enumerate 0 passages)) =
        pre @ map labelled (enumerate 0 passages) ! i @ post"
    by blast
  have "answer_prompt question passages =
     (prompt_head question @ pre) @
     (''['' @ digits (i + 1) @ ''] '' @ template_string (passages ! i)) @ (post @ prompt_tail)"
    unfolding answer_prompt_def j labelled_nth [OF i]
    by (simp only: append_assoc)
  then show "\<exists>pre post. answer_prompt question passages =
           pre @ (''['' @ digits (i + 1) @ ''] '' @ template_string (passages ! i)) @ post"
    by (rule between_intro)
qed

theorem generateAnswer_requires_context_witness:
  "generateAnswer (\<lambda>p. Inr (Some ''from prior knowledge'')) ''What is the capital of France?'' (Array []) =
     (Inl (Error ''No context available for answer generation''), []) \<and>
   answer_prompt ''Capital?'' [Some ''Paris is the capital of France.'', Some ''Lyon is a major city.''] =
     prompt_head ''Capital?'' @
     ''[1] Paris is the capital of France.\<newline>\<newline>[2] Lyon is a major city.'' @ prompt_tail"
  using generateAnswer_requires_context
      [of "Array []" "\<lambda>p. Inr (Some ''from prior knowledge'')" "''What is the capital of France?''"
        "[Some ''Paris is the capital of France.'', Some ''Lyon is a major city.'']"]
  by (simp add: answer_prompt_def labelled_def template_string_def digits.simps)

section \<open>Properties of the double arithmetic\<close>

text \<open>
  \<open>floor_log2\<close> is the binary exponent. Rounding moves a number of magnitude below \<open>2 ^ 32\<close>
  by at most \<open>2 ^ -22\<close>: the unit in the last place is at most \<open>2 ^ -21\<close> there. This is all
  the ordering of the scores needs.
\<close>

lemma pow2_powi: "pow2 k = 2 powi k"
  by (simp add: pow2_def power_int_def field_simps)

lemma pow2_pos: "0 < pow2 k"
  by (simp add: pow2_def)

lemma pow2_mono: "k \<le> l \<Longrightarrow> pow2 k \<le> pow2 l"
  by (simp add: pow2_powi power_int_increasing)

lemma round_half_even_error: "\<bar>of_int (round_half_even m) - m\<bar> \<le> 1 / 2"
proof -
  define f where "f = \<lfloor>m\<rfloor>"
  have "of_int f \<le> m" "m < of_int f + 1"
    unfolding f_def by linarith+
  then have "\<bar>of_int (if m - of_int f < 1 / 2 then f
      else if 1 / 2 < m - of_int f then f + 1 else if even f then f else f + 1) - m\<bar> \<le> 1 / 2"
    by (auto simp add: abs_if)
  then show ?thesis
    unfolding round_half_even_def Let_def f_def .
qed

lemma bitlen_powi_bounds:
  assumes "0 < a"
  shows "2 powi (bitlen a - 1) \<le> (of_int a :: rat)" and "(of_int a :: rat) < 2 powi bitlen a"
proof -
  from bitlen_bounds [OF assms]
  have 1: "2 ^ nat (bitlen a - 1) \<le> a" and 2: "a < 2 ^ nat (bitlen a)" by simp_all
  from assms have pos: "1 \<le> bitlen a"
    using bitlen_eq_zero_iff [of a] bitlen_nonneg [of a] by linarith
  from 1 have "(of_int (2 ^ nat (bitlen a - 1)) :: rat) \<le> of_int a" by (simp only: of_int_le_iff)
  then show "2 powi (bitlen a - 1) \<le> (of_int a :: rat)"
    using pos by (simp add: power_int_def)
  from 2 have "(of_int a :: rat) < of_int (2 ^ nat (bitlen a))" by (simp only: of_int_less_iff)
  then show "(of_int a :: rat) < 2 powi bitlen a"
    using pos by (simp add: power_int_def)
qed

lemma floor_log2_correct:
  assumes "0 < x"
  shows "pow2 (floor_log2 x) \<le> x \<and> x < pow2 (floor_log2 x + 1)"
proof -
  obtain a b where q: "quotient_of x = (a, b)" by (cases "quotient_of x")
  have b: "0 < b" using q by (rule quotient_of_denom_pos)
  have x: "x = of_int a / of_int b" using q by (rule quotient_of_div)
  with assms b have a: "0 < a" by (simp add: zero_less_divide_iff)
  define d where "d = bitlen a - bitlen b"
  note A = bitlen_powi_bounds [OF a] and B = bitlen_powi_bounds [OF b]
  have bpos: "(0::rat) < of_int b" using b by simp
  have lo: "2 powi (d - 1) \<le> x"
  proof -
    have "2 powi (d - 1) = (2 powi (bitlen a - 1) :: rat) / 2 powi bitlen b"
      by (simp add: d_def power_int_diff)
    also have "\<dots> \<le> of_int a / 2 powi bitlen b"
      using A(1) by (intro divide_right_mono) simp_all
    also have "\<dots> \<le> of_int a / of_int b"
      using B(2) a bpos by (intro divide_left_mono) (simp_all add: less_imp_le)
    finally show ?thesis by (simp add: x)
  qed
  have hi: "x < 2 powi (d + 1)"
  proof -
    have "x = of_int a / of_int b" by (rule x)
    also have "\<dots> < 2 powi bitlen a / of_int b"
      using A(2) bpos by (intro divide_strict_right_mono)
    also have "\<dots> \<le> 2 powi bitlen a / 2 powi (bitlen b - 1)"
      using B(1) bpos by (intro divide_left_mono) simp_all
    also have "\<dots> = 2 powi (bitlen a - (bitlen b - 1))"
      by (subst power_int_diff) simp_all
    also have "bitlen a - (bitlen b - 1) = d + 1"
      by (simp add: d_def)
    finally show ?thesis .
  qed
  show ?thesis
  proof (cases "pow2 d \<le> x")
    case True
    with q have "floor_log2 x = d" by (simp add: floor_log2_def d_def)
    with True hi show ?thesis by (simp add: pow2_powi)
  next
    case False
    with q have "floor_log2 x = d - 1" by (simp add: floor_log2_def d_def)
    with False lo show ?thesis by (simp add: pow2_powi)
  qed
qed

lemma floor_log2_upper:
  assumes "0 < x" "x < 2 ^ 32"
  shows "floor_log2 x \<le> 31"
proof (rule ccontr)
  assume "\<not> floor_log2 x \<le> 31"
  then have "pow2 32 \<le> pow2 (floor_log2 x)" by (intro pow2_mono) simp
  also have "\<dots> \<le> x" using floor_log2_correct [OF assms(1)] by simp
  finally show False using assms(2) by (simp add: pow2_def)
qed

lemma round_double_error:
  assumes "\<bar>x\<bar> < 2 ^ 32"
  shows "\<bar>round_double x - x\<bar> \<le> 1 / 2 ^ 22"
proof (cases "x = 0")
  case True
  then show ?thesis by (simp add: round_double_def)
next
  case False
  define e where "e = max (floor_log2 \<bar>x\<bar>) (- 1022)"
  define u where "u = pow2 (e - 52)"
  have "floor_log2 \<bar>x\<bar> \<le> 31" using False assms by (intro floor_log2_upper) simp_all
  then have "e - 52 \<le> - 21" by (simp add: e_def)
  then have "u \<le> pow2 (- 21)" unfolding u_def by (rule pow2_mono)
  then have u21: "u \<le> 1 / 2 ^ 21" by (simp add: pow2_def)
  have u0: "0 < u" by (simp add: u_def pow2_pos)
  have rd: "round_double x = of_int (round_half_even (x / u)) * u"
    using False by (simp add: round_double_def Let_def e_def u_def)
  have "round_double x - x = (of_int (round_half_even (x / u)) - x / u) * u"
    using u0 by (simp add: rd field_simps)
  then have "\<bar>round_double x - x\<bar> = \<bar>of_int (round_half_even (x / u)) - x / u\<bar> * u"
    using u0 by (simp add: abs_mult)
  also have "\<dots> \<le> (1 / 2) * u"
    using u0 round_half_even_error [of "x / u"] by (intro mult_right_mono) simp_all
  also have "\<dots> \<le> (1 / 2) * (1 / 2 ^ 21)"
    using u21 by (intro mult_left_mono) simp_all
  finally show ?thesis by simp
qed

lemma literal_0_1_bounds: "9 / 100 \<le> literal_0_1 \<and> literal_0_1 \<le> 11 / 100"
proof -
  have "\<bar>round_double (1 / 10) - 1 / 10\<bar> \<le> 1 / 2 ^ 22"
    by (rule round_double_error) simp
  then have "\<bar>literal_0_1 - 1 / 10\<bar> \<le> 1 / 4194304"
    by (simp only: literal_0_1_def) simp
  then show ?thesis by linarith
qed

lemma double_times_error:
  assumes "i < (2::nat) ^ 32"
  shows "\<bar>double_times (of_nat i) literal_0_1 - of_nat i * literal_0_1\<bar> \<le> 1 / 4194304"
    and "0 \<le> of_nat i * literal_0_1" and "of_nat i * literal_0_1 \<le> 536870912"
proof -
  from assms have "(of_nat i :: rat) < of_nat (2 ^ 32)" by (simp only: of_nat_less_iff)
  then have i: "(of_nat i :: rat) < 4294967296" by simp
  show nonneg: "0 \<le> of_nat i * literal_0_1"
    using literal_0_1_bounds by simp
  have "of_nat i * literal_0_1 \<le> of_nat i * (11 / 100)"
    using literal_0_1_bounds by (intro mult_left_mono) simp_all
  with i show le: "of_nat i * literal_0_1 \<le> 536870912" by linarith
  from nonneg le have "\<bar>of_nat i * literal_0_1\<bar> < 2 ^ 32" by simp
  then have "\<bar>round_double (of_nat i * literal_0_1) - of_nat i * literal_0_1\<bar> \<le> 1 / 2 ^ 22"
    by (rule round_double_error)
  then show "\<bar>double_times (of_nat i) literal_0_1 - of_nat i * literal_0_1\<bar> \<le> 1 / 4194304"
    by (simp only: double_times_def) simp
qed

lemma relevance_error:
  assumes "i < (2::nat) ^ 32"
  shows "\<bar>relevance i - (1 - of_nat i * literal_0_1)\<bar> \<le> 1 / 2097152"
proof -
  define p where "p = double_times (of_nat i) literal_0_1"
  define x where "x = of_nat i * literal_0_1"
  from double_times_error [OF assms]
  have t: "\<bar>p - x\<bar> \<le> 1 / 4194304" "0 \<le> x" "x \<le> 536870912"
    by (simp_all only: p_def x_def)
  then have "\<bar>1 - p\<bar> < 4294967296" by linarith
  then have "\<bar>1 - p\<bar> < 2 ^ 32" by simp
  then have "\<bar>round_double (1 - p) - (1 - p)\<bar> \<le> 1 / 2 ^ 22"
    by (rule round_double_error)
  then have "\<bar>round_double (1 - p) - (1 - p)\<bar> \<le> 1 / 4194304" by simp
  with t(1) have "\<bar>round_double (1 - p) - (1 - x)\<bar> \<le> 1 / 2097152" by linarith
  then show ?thesis
    by (simp only: relevance_def double_minus_def p_def x_def)
qed

lemma relevance_strict_antitone:
  assumes "i < j" "j < (2::nat) ^ 32"
  shows "relevance j < relevance i"
proof -
  from assms have i: "i < 2 ^ 32" by (rule less_trans)
  from assms(1) obtain k where k: "j = Suc (i + k)" by (blast dest: less_imp_Suc_add)
  define x where "x = of_nat i * literal_0_1"
  define y where "y = of_nat j * literal_0_1"
  have c: "9 / 100 \<le> literal_0_1" using literal_0_1_bounds by simp
  then have "0 \<le> of_nat k * literal_0_1" by simp
  then have "x + literal_0_1 \<le> y"
    by (simp add: k x_def y_def algebra_simps)
  with c have gap: "x + 9 / 100 \<le> y" by linarith
  from relevance_error [OF i] have a: "\<bar>relevance i - (1 - x)\<bar> \<le> 1 / 2097152"
    by (simp only: x_def)
  from relevance_error [OF assms(2)] have b: "\<bar>relevance j - (1 - y)\<bar> \<le> 1 / 2097152"
    by (simp only: y_def)
  from a b gap show ?thesis by linarith
qed

section \<open>Properties of the relevance scores\<close>

lemma searchKnowledgeBase_scores:
  assumes "fst (searchKnowledgeBase embedQuery indexQuery q) = Inr r" "results r = Some rs"
    "i < length rs"
  shows "relevanceScore (rs ! i) = relevance i"
  using assms
  by (auto simp add: searchKnowledgeBase_def searchKnowledgeBase_try_def Let_def formatResult_def
      nth_enumerate_eq bind_js_def read_message_def
      split: sum.splits prod.splits if_splits js_error.splits)

text \<open>
  Claim C5. For every result sequence that \<open>searchKnowledgeBase\<close> returns (a JavaScript array,
  so of length below \<open>2 ^ 32\<close>), the score at position \<open>i\<close> is the double that
  \<^verbatim>\<open>1 - (i * 0.1)\<close> computes, the score at each position is strictly greater than the score at
  the next position, and so the sequence is sorted by non-increasing score.
\<close>

theorem relevance_scores_decrease:
  assumes "fst (searchKnowledgeBase embedQuery indexQuery q) = Inr r" "results r = Some rs"
    "length rs < 2 ^ 32"
  shows "(\<forall>i<length rs.
            relevanceScore (rs ! i) = double_minus 1 (double_times (of_nat i) literal_0_1)) \<and>
         (\<forall>i. Suc i < length rs \<longrightarrow> relevanceScore (rs ! Suc i) < relevanceScore (rs ! i)) \<and>
         sorted_wrt (\<lambda>a b. relevanceScore b \<le> relevanceScore a) rs"
proof (intro conjI allI impI)
  fix i assume "i < length rs"
  then show "relevanceScore (rs ! i) = double_minus 1 (double_times (of_nat i) literal_0_1)"
    using searchKnowledgeBase_scores [OF assms(1,2)] by (simp add: relevance_def)
next
  fix i assume i: "Suc i < length rs"
  then have "Suc i < (2::nat) ^ 32" using assms(3) by (rule less_trans)
  then have "relevance (Suc i) < relevance i"
    by (intro relevance_strict_antitone) simp_all
  with i show "relevanceScore (rs ! Suc i) < relevanceScore (rs ! i)"
    using searchKnowledgeBase_scores [OF assms(1,2)] by simp
next
  have "relevanceScore (rs ! j) \<le> relevanceScore (rs ! i)" if "i < j" "j < length rs" for i j
  proof -
    from that assms(3) have "j < (2::nat) ^ 32" by simp
    with that(1) have "relevance j < relevance i" by (intro relevance_strict_antitone)
    with that show ?thesis
      using searchKnowledgeBase_scores [OF assms(1,2)] by simp
  qed
  then show "sorted_wrt (\<lambda>a b. relevanceScore b \<le> relevanceScore a) rs"
    by (simp add: sorted_wrt_iff_nth_less)
qed

theorem relevance_scores_decrease_witness:
  "fst (searchKnowledgeBase (\<lambda>s. Inr (768::nat))
          (\<lambda>v. Inr [\<lparr>metadata = Some \<lparr>metadata_text = JString ''Paris is the capital of France.''\<rparr>\<rparr>,
                     \<lparr>metadata = Some \<lparr>metadata_text = JString ''Lyon is a major city.''\<rparr>\<rparr>])
          (JString ''capital'')) =
     Inr \<lparr>success = True, query = JString ''capital'',
          results = Some [\<lparr>chunkId = ''chunk_0'', content = JString ''Paris is the capital of France.'',
                           relevanceScore = 1\<rparr>,
                          \<lparr>chunkId = ''chunk_1'', content = JString ''Lyon is a major city.'',
                           relevanceScore = 8106479329266893 / 9007199254740992\<rparr>],
          resultCount = 2, message = ''Search completed successfully.'', errorDetails = None\<rparr> \<and>
   sorted_wrt (\<lambda>a b. relevanceScore b \<le> relevanceScore a)
     [\<lparr>chunkId = ''chunk_0'', content = JString ''Paris is the capital of France.'', relevanceScore = 1\<rparr>,
      \<lparr>chunkId = ''chunk_1'', content = JString ''Lyon is a major city.'',
       relevanceScore = 8106479329266893 / 9007199254740992\<rparr>]"
proof -
  have r0: "relevance 0 = 1" by code_simp
  have r1: "relevance (Suc 0) = 8106479329266893 / 9007199254740992" by code_simp
  have sk: "fst (searchKnowledgeBase (\<lambda>s. Inr (768::nat))
          (\<lambda>v. Inr [\<lparr>metadata = Some \<lparr>metadata_text = JString ''Paris is the capital of France.''\<rparr>\<rparr>,
                     \<lparr>metadata = Some \<lparr>metadata_text = JString ''Lyon is a major city.''\<rparr>\<rparr>])
          (JString ''capital'')) =
     Inr \<lparr>success = True, query = JString ''capital'',
          results = Some [\<lparr>chunkId = ''chunk_0'', content = JString ''Paris is the capital of France.'',
                           relevanceScore = 1\<rparr>,
                          \<lparr>chunkId = ''chunk_1'', content = JString ''Lyon is a major city.'',
                           relevanceScore = 8106479329266893 / 9007199254740992\<rparr>],
          resultCount = 2, message = ''Search completed successfully.'', errorDetails = None\<rparr>"
    by (simp add: searchKnowledgeBase_def searchKnowledgeBase_try_def queryDocument_def
        invalid_query_def trim_def is_js_space_def optional_text_def formatResult_def
        digits.simps r0 r1)
  from relevance_scores_decrease [OF sk, of
      "[\<lparr>chunkId = ''chunk_0'', content = JString ''Paris is the capital of France.'', relevanceScore = 1\<rparr>,
        \<lparr>chunkId = ''chunk_1'', content = JString ''Lyon is a major city.'',
         relevanceScore = 8106479329266893 / 9007199254740992\<rparr>]"]
  have "sorted_wrt (\<lambda>a b. relevanceScore b \<le> relevanceScore a)
     [\<lparr>chunkId = ''chunk_0'', content = JString ''Paris is the capital of France.'', relevanceScore = 1\<rparr>,
      \<lparr>chunkId = ''chunk_1'', content = JString ''Lyon is a major city.'',
       relevanceScore = 8106479329266893 / 9007199254740992\<rparr>]"
    by simp
  with sk show ?thesis by (rule conjI)
qed

section \<open>Properties of the indexing\<close>

lemma take_drop_batch: "take n (drop i xs) @ drop (i + n) xs = drop i xs"
  by (metis append_take_drop_id drop_drop add.commute)

lemma upsertBatches_succeed:
  "(\<And>k b. upsert k b = Inr ()) \<Longrightarrow>
     fst (upsertBatches upsert records i) = None \<and>
     concat (snd (upsertBatches upsert records i)) = drop i records"
proof (induction upsert records i rule: upsertBatches.induct)
  case (1 upsert records i)
  show ?case
  proof (cases "i < length records")
    case True
    have ok: "upsert (i div 100) (take 100 (drop i records)) = Inr ()" by (rule "1.prems")
    from "1.IH" [OF True ok "1.prems"] show ?thesis
      using True ok
      by (subst (1 2) upsertBatches.simps) (auto simp add: take_drop_batch split: prod.splits)
  next
    case False
    then show ?thesis
      by (subst (1 2) upsertBatches.simps) simp
  qed
qed

text \<open>
  Claim C6. When the number of chunks differs from the number of vectors, \<open>storeInPinecone\<close>
  throws the mismatch error and no batch is sent to the vector store. When both are \<open>n\<close>,
  exactly \<open>n\<close> records are built, the \<open>i\<close>-th from the \<open>i\<close>-th chunk and the \<open>i\<close>-th vector; a
  count that is returned is \<open>n\<close>; and when every upsert succeeds the call returns \<open>n\<close>, the
  batches sent making up the \<open>n\<close> records in order.
\<close>

theorem storeInPinecone_one_record_per_chunk:
  "(length chunks \<noteq> length vectors \<longrightarrow>
      storeInPinecone env upsert chunks vectors =
        (Inl (Error ''Mismatch between chunks and vectors length''), [])) \<and>
   (length chunks = length vectors \<longrightarrow>
      length (map (buildRecord env vectors) (enumerate 0 chunks)) = length chunks \<and>
      (\<forall>i<length chunks.
         stored_text (record_metadata (map (buildRecord env vectors) (enumerate 0 chunks) ! i)) = chunks ! i \<and>
         record_values (map (buildRecord env vectors) (enumerate 0 chunks) ! i) = vectors ! i) \<and>
      (\<forall>m. fst (storeInPinecone env upsert chunks vectors) = Inr m \<longrightarrow> m = length chunks) \<and>
      ((\<forall>k b. upsert k b = Inr ()) \<longrightarrow>
         fst (storeInPinecone env upsert chunks vectors) = Inr (length chunks) \<and>
         concat (snd (storeInPinecone env upsert chunks vectors)) =
           map (buildRecord env vectors) (enumerate 0 chunks)))"
proof (intro conjI impI allI)
  assume "length chunks \<noteq> length vectors"
  then show "storeInPinecone env upsert chunks vectors =
        (Inl (Error ''Mismatch between chunks and vectors length''), [])"
    by (simp add: storeInPinecone_def)
next
  show "length (map (buildRecord env vectors) (enumerate 0 chunks)) = length chunks" by simp
next
  fix i assume "i < length chunks"
  then show "stored_text (record_metadata (map (buildRecord env vectors) (enumerate 0 chunks) ! i)) = chunks ! i"
    by (simp add: buildRecord_def nth_enumerate_eq)
next
  fix i assume "i < length chunks"
  then show "record_values (map (buildRecord env vectors) (enumerate 0 chunks) ! i) = vectors ! i"
    by (simp add: buildRecord_def nth_enumerate_eq)
next
  fix m
  assume "length chunks = length vectors" "fst (storeInPinecone env upsert chunks vectors) = Inr m"
  then show "m = length chunks"
    by (auto simp add: storeInPinecone_def Let_def split: prod.splits option.splits)
next
  assume eq: "length chunks = length vectors" and ok: "\<forall>k b. upsert k b = Inr ()"
  from ok have *: "fst (upsertBatches upsert (map (buildRecord env vectors) (enumerate 0 chunks)) 0) = None \<and>
         concat (snd (upsertBatches upsert (map (buildRecord env vectors) (enumerate 0 chunks)) 0)) =
           drop 0 (map (buildRecord env vectors) (enumerate 0 chunks))"
    by (intro upsertBatches_succeed) simp
  from * eq show "fst (storeInPinecone env upsert chunks vectors) = Inr (length chunks)"
    by (auto simp add: storeInPinecone_def Let_def split: prod.splits option.splits)
  from * eq show "concat (snd (storeInPinecone env upsert chunks vectors)) =
           map (buildRecord env vectors) (enumerate 0 chunks)"
    by (auto simp add: storeInPinecone_def Let_def split: prod.splits option.splits)
qed

theorem storeInPinecone_one_record_per_chunk_witness:
  "storeInPinecone
     \<lparr>dateNow = \<lambda>i. 1762693247000, randomSuffix = \<lambda>i. ''k3j9x0q1z'',
      isoString = \<lambda>i. ''2025-11-09T13:20:47.000Z''\<rparr>
     (\<lambda>k b. Inr ()) [''Paris is the capital of France.''] ([] :: int list list) =
     (Inl (Error ''Mismatch between chunks and vectors length''), []) \<and>
   fst (storeInPinecone
     \<lparr>dateNow = \<lambda>i. 1762693247000, randomSuffix = \<lambda>i. ''k3j9x0q1z'',
      isoString = \<lambda>i. ''2025-11-09T13:20:47.000Z''\<rparr>
     (\<lambda>k b. Inr ()) [''Paris is the capital of France.'', ''Lyon is a major city.'']
     [[1, 0], [0, 1 :: int]]) = Inr 2"
proof -
  let ?env = "\<lparr>dateNow = \<lambda>i. 1762693247000, randomSuffix = \<lambda>i. ''k3j9x0q1z'',
      isoString = \<lambda>i. ''2025-11-09T13:20:47.000Z''\<rparr>"
  let ?upsert = "\<lambda>(k::nat) (b::int list index_record list). (Inr () :: js_error + unit)"
  let ?chunks = "[''Paris is the capital of France.'', ''Lyon is a major city.'']"
  let ?vectors = "[[1, 0], [0, 1 :: int]]"
  have ne: "length [''Paris is the capital of France.''] \<noteq> length ([] :: int list list)" by simp
  have eq: "length ?chunks = length ?vectors" by simp
  have ok: "\<forall>k b. ?upsert k b = Inr ()" by simp
  note mismatch = storeInPinecone_one_record_per_chunk
      [of "[''Paris is the capital of France.'']" "[] :: int list list" ?env ?upsert,
        THEN conjunct1, THEN mp, OF ne]
  note stored = storeInPinecone_one_record_per_chunk
      [of ?chunks ?vectors ?env ?upsert, THEN conjunct2, THEN mp, OF eq,
        THEN conjunct2, THEN conjunct2, THEN conjunct2, THEN mp, OF ok, THEN conjunct1]
  from stored have "fst (storeInPinecone ?env ?upsert ?chunks ?vectors) = Inr 2" by simp
  with mismatch show ?thesis by (rule conjI)
qed

end
